theory Spec2Isabelle
  imports Complex_Main
begin

section \<open>JavaScript values\<close>

text \<open>
  A JavaScript number is a binary64 value: a rational that binary64 represents, or one
  of the three special values \<open>NaN\<close>, \<open>Infinity\<close> and \<open>-Infinity\<close>. Every
  arithmetic operation rounds its exact result to the nearest binary64 value, ties to
  the even significand, with overflow to an infinity and gradual underflow. The sign of
  zero is not modelled: a division of a non-zero number by zero takes the sign of the
  numerator, as it does for \<open>+0\<close>.
\<close>

datatype jsnum = Fin rat | PInf | NInf | NaN

text \<open>\<open>ilog2 n\<close> is the integer part of the binary logarithm of \<open>n \<ge> 1\<close>.\<close>

function ilog2 :: "int \<Rightarrow> int" where
  "ilog2 n = (if n < 2 then 0 else 1 + ilog2 (n div 2))"
  by pat_completeness auto
termination
  by (relation "measure nat") auto

declare ilog2.simps [simp del]

text \<open>The binary exponent of a positive rational \<open>a\<close>: \<open>2^e \<le> a < 2^(e+1)\<close>.\<close>

definition exponent :: "rat \<Rightarrow> int" where
  "exponent a =
     (if 1 \<le> a then ilog2 \<lfloor>a\<rfloor>
      else if \<lceil>1 / a\<rceil> = 1 then 0 else - (1 + ilog2 (\<lceil>1 / a\<rceil> - 1)))"

function pow2n :: "int \<Rightarrow> rat" where
  "pow2n k = (if k \<le> 0 then 1
              else if even k then pow2n (k div 2) * pow2n (k div 2)
              else 2 * (pow2n (k div 2) * pow2n (k div 2)))"
  by pat_completeness auto
termination
  by (relation "measure nat") auto

declare pow2n.simps [simp del]

definition pow2 :: "int \<Rightarrow> rat" where
  "pow2 k = (if 0 \<le> k then pow2n k else 1 / pow2n (- k))"

definition round_half_even :: "rat \<Rightarrow> int" where
  "round_half_even x =
     (let n = \<lfloor>x\<rfloor>; f = x - of_int n
      in if f < 1 / 2 then n else if 1 / 2 < f then n + 1 else if even n then n else n + 1)"

definition inf_of :: "rat \<Rightarrow> jsnum" where
  "inf_of r = (if 0 < r then PInf else NInf)"

text \<open>
  The binary64 value nearest to a rational. The significand has 53 bits, so the spacing
  of the values around \<open>r\<close> is \<open>2^(e - 52)\<close> for the exponent \<open>e\<close> of \<open>r\<close>, which is not
  taken below \<open>-1022\<close> (the subnormal range); the result overflows when it reaches
  \<open>2^1024\<close>.
\<close>

definition round64 :: "rat \<Rightarrow> jsnum" where
  "round64 r =
     (if r = 0 then Fin 0
      else if 1024 \<le> exponent \<bar>r\<bar> then inf_of r
      else let e = max (exponent \<bar>r\<bar>) (- 1022);
               n = round_half_even (\<bar>r\<bar> / pow2 (e - 52))
           in if e = 1023 \<and> n = 9007199254740992 then inf_of r
              else Fin (sgn r * (of_int n * pow2 (e - 52))))"

text \<open>
  Reading a numeral as a number: a decimal literal of the configuration, a numeral of
  a JSON document or the contents of a numeric string denote a rational, and the number
  is the binary64 value nearest to it. A rational that is a binary64 value is unchanged.
\<close>

fun r64 :: "jsnum \<Rightarrow> jsnum" where
  "r64 (Fin r) = round64 r"
| "r64 x = x"

text \<open>
  The values the bot handles: \<open>undefined\<close> (an absent field, the value of a function
  that falls off its end), a number, given by its numeral, and a numeric string (such
  as \<open>toFixed(2)\<close> returns, or the exchange sends for a price or a balance), which is
  represented by the rational its digits denote.
\<close>

datatype jsval = Undefined | Num jsnum | Fixed2 jsnum

text \<open>\<open>ToNumber\<close>, applied by the arithmetic operators and by \<open>==\<close> against a number.\<close>

fun to_num :: "jsval \<Rightarrow> jsnum" where
  "to_num Undefined = NaN"
| "to_num (Num n) = r64 n"
| "to_num (Fixed2 n) = r64 n"

fun jsub :: "jsnum \<Rightarrow> jsnum \<Rightarrow> jsnum" where
  "jsub (Fin a) (Fin b) = round64 (a - b)"
| "jsub (Fin a) PInf = NInf"
| "jsub (Fin a) NInf = PInf"
| "jsub PInf (Fin b) = PInf"
| "jsub PInf PInf = NaN"
| "jsub PInf NInf = PInf"
| "jsub NInf (Fin b) = NInf"
| "jsub NInf PInf = NInf"
| "jsub NInf NInf = NaN"
| "jsub NaN y = NaN"
| "jsub x NaN = NaN"

fun jmul :: "jsnum \<Rightarrow> jsnum \<Rightarrow> jsnum" where
  "jmul (Fin a) (Fin b) = round64 (a * b)"
| "jmul (Fin a) PInf = (if a = 0 then NaN else if 0 < a then PInf else NInf)"
| "jmul (Fin a) NInf = (if a = 0 then NaN else if 0 < a then NInf else PInf)"
| "jmul PInf (Fin b) = (if b = 0 then NaN else if 0 < b then PInf else NInf)"
| "jmul NInf (Fin b) = (if b = 0 then NaN else if 0 < b then NInf else PInf)"
| "jmul PInf PInf = PInf"
| "jmul PInf NInf = NInf"
| "jmul NInf PInf = NInf"
| "jmul NInf NInf = PInf"
| "jmul NaN y = NaN"
| "jmul x NaN = NaN"

fun jdiv :: "jsnum \<Rightarrow> jsnum \<Rightarrow> jsnum" where
  "jdiv (Fin a) (Fin b) =
     (if b = 0 then (if a = 0 then NaN else if 0 < a then PInf else NInf)
      else round64 (a / b))"
| "jdiv (Fin a) PInf = Fin 0"
| "jdiv (Fin a) NInf = Fin 0"
| "jdiv PInf (Fin b) = (if 0 \<le> b then PInf else NInf)"
| "jdiv NInf (Fin b) = (if 0 \<le> b then NInf else PInf)"
| "jdiv PInf PInf = NaN"
| "jdiv PInf NInf = NaN"
| "jdiv NInf PInf = NaN"
| "jdiv NInf NInf = NaN"
| "jdiv NaN y = NaN"
| "jdiv x NaN = NaN"

text \<open>
  The relational operator \<open>>\<close> compares the values exactly; every comparison with
  \<open>NaN\<close> is false.
\<close>

fun jgt :: "jsnum \<Rightarrow> jsnum \<Rightarrow> bool" where
  "jgt (Fin a) (Fin b) = (b < a)"
| "jgt (Fin a) NInf = True"
| "jgt PInf (Fin b) = True"
| "jgt PInf NInf = True"
| "jgt x y = False"

text \<open>
  \<open>Number.prototype.toFixed(2)\<close>: a value that is not finite gives its name, a value
  of magnitude at least \<open>10^21\<close> gives its ordinary string, and otherwise the magnitude
  is rounded to the nearest multiple of \<open>1/100\<close>, the larger one on a tie, in exact
  arithmetic on the value of the number. The result is the rational the string denotes.
\<close>

fun toFixed2 :: "jsnum \<Rightarrow> jsnum" where
  "toFixed2 (Fin r) =
     (if 10 ^ 21 \<le> \<bar>r\<bar> then Fin r
      else Fin (sgn r * (of_int \<lfloor>\<bar>r\<bar> * 100 + 1 / 2\<rfloor> / 100)))"
| "toFixed2 x = x"

text \<open>The loose comparison \<open>v == 0\<close>: \<open>undefined == 0\<close> is false, a string is converted.\<close>

fun loose_eq_zero :: "jsval \<Rightarrow> bool" where
  "loose_eq_zero Undefined = False"
| "loose_eq_zero (Num n) = (r64 n = Fin 0)"
| "loose_eq_zero (Fixed2 n) = (r64 n = Fin 0)"

section \<open>The weight calculation\<close>

record weightSpec =
  maxATHFactor :: jsnum
  ATH :: jsnum
  mayerMultipleAvg :: jsnum
  mayerMultipleMax :: jsnum

text \<open>
  The arithmetic of \<open>calculateWeight\<close>, one definition for each of its local
  variables. \<open>sma\<close> is the value \<open>getSMA\<close> returned, \<open>currentPrice\<close> the bid price of
  the book ticker, \<open>q\<close> the \<open>quoteOrderQty\<close> of the trade.
\<close>

definition mayerMultiple :: "jsval \<Rightarrow> jsnum \<Rightarrow> jsnum" where
  "mayerMultiple sma currentPrice = jdiv currentPrice (to_num sma)"

definition athFactor :: "weightSpec \<Rightarrow> jsnum \<Rightarrow> jsnum" where
  "athFactor w currentPrice =
     (let a = jsub (maxATHFactor w) (jdiv currentPrice (ATH w)) in jmul a a)"

definition mayerWeightConstant :: "weightSpec \<Rightarrow> jsnum" where
  "mayerWeightConstant w =
     jdiv (Fin 1) (jsub (Fin 1) (jdiv (mayerMultipleAvg w) (mayerMultipleMax w)))"

definition currentWeightMultiple :: "weightSpec \<Rightarrow> jsval \<Rightarrow> jsnum \<Rightarrow> jsnum" where
  "currentWeightMultiple w sma currentPrice =
     jsub (Fin 1) (jdiv (mayerMultiple sma currentPrice) (mayerMultipleMax w))"

definition mayerFactor :: "weightSpec \<Rightarrow> jsval \<Rightarrow> jsnum \<Rightarrow> jsnum" where
  "mayerFactor w sma currentPrice =
     (let m = jmul (mayerWeightConstant w) (currentWeightMultiple w sma currentPrice)
      in if jgt m (Fin 0) then m else Fin 0)"

definition updatedQuoteOrderQty :: "jsval \<Rightarrow> weightSpec \<Rightarrow> jsval \<Rightarrow> jsnum \<Rightarrow> jsval" where
  "updatedQuoteOrderQty q w sma currentPrice =
     Fixed2 (toFixed2 (jmul (jmul (to_num q) (mayerFactor w sma currentPrice))
                            (athFactor w currentPrice)))"

section \<open>Trades, collaborators and effects\<close>

text \<open>
  A trade of the configuration. An absent field is \<open>None\<close> or \<open>Undefined\<close>;
  \<open>quantity\<close> and \<open>quoteOrderQty\<close> are numbers when present.
\<close>

record trade =
  asset :: "string option"
  currency :: "string option"
  quantity :: jsval
  quoteOrderQty :: jsval
  schedule :: "string option"
  weight :: "weightSpec option"

text \<open>String conversion in a concatenation, and truthiness.\<close>

fun js_str :: "string option \<Rightarrow> string" where
  "js_str None = ''undefined''"
| "js_str (Some s) = s"

fun truthy_str :: "string option \<Rightarrow> bool" where
  "truthy_str None = False"
| "truthy_str (Some s) = (s \<noteq> [])"

fun truthy :: "jsval \<Rightarrow> bool" where
  "truthy Undefined = False"
| "truthy (Num n) = (r64 n \<noteq> Fin 0 \<and> r64 n \<noteq> NaN)"
| "truthy (Fixed2 n) = True"

fun truthy_id :: "nat option \<Rightarrow> bool" where
  "truthy_id None = False"
| "truthy_id (Some n) = (n \<noteq> 0)"

text \<open>
  What the exchange answers to \<open>marketBuy\<close>: an order identifier when the order went
  through, a message when it did not, and the fills (their prices; \<open>[]\<close> also stands for
  an absent list, since reading \<open>fills[0].price\<close> throws for both).
\<close>

record response =
  orderId :: "nat option"
  msg :: "string option"
  fills :: "jsnum list"

record details =
  totalCost :: jsval

record balance =
  balance_asset :: string
  free :: jsval

record accountInfo =
  info_msg :: "string option"
  canTrade :: bool
  balances :: "balance list"

record bookTicker =
  bidPrice :: jsval

text \<open>
  The answer to one \<open>fetch\<close> of the indicator service: the request or the decoding of
  its body throws, or the body is an object with the fields \<open>error\<close> and \<open>value\<close>.
\<close>

datatype fetch_result = FetchThrows | FetchJson "string option" jsval

text \<open>
  The messages sent to the channels, by kind and with the values they carry, and the
  calls made to the collaborators. Console output is not modelled.
\<close>

datatype message =
    SkippedMsg string
  | ExecutedMsg string
  | BalanceLowMsg string jsval
  | FailedMsg string string
  | StartedMsg

datatype event =
    Fetch string string nat
  | Wait nat
  | GetBookTicker string
  | MarketBuy string jsval jsval
  | SaveOrder response
  | SendGrid message
  | Telegram message
  | GetAccountInfo
  | ScheduleJob string trade

datatype error = TypeError | BothSizesError | AccountError string | CronstrueError string

text \<open>
  The collaborators. Each call is appended to the log of events, and the answer to a
  call is a function of the log up to and including that call, so that an answer may
  depend on the arguments of the call and on everything that happened before it. The
  calls themselves are taken to return: a call that rejects is not modelled.
  \<open>getOrderDetails\<close> and \<open>cronstrue\<close> (the description of a schedule by
  \<open>cronstrue.toString\<close>, which throws on an expression it cannot read: \<open>None\<close>) are
  functions of their arguments.
\<close>

record collab =
  fetch :: "event list \<Rightarrow> fetch_result"
  getBookTicker :: "event list \<Rightarrow> bookTicker"
  marketBuy :: "event list \<Rightarrow> response"
  getOrderDetails :: "string option \<Rightarrow> string option \<Rightarrow> response \<Rightarrow> details"
  getAccountInfo :: "event list \<Rightarrow> accountInfo"
  cronstrue :: "string \<Rightarrow> string option"

definition NUM_TRADE_THRESHOLD :: rat where
  "NUM_TRADE_THRESHOLD = 5"

section \<open>The indicator adapter\<close>

text \<open>
  The loop of \<open>TAAPI.getSMA\<close>, \<open>for (let tries = 1; tries < 3; tries++)\<close>: an answer
  with an \<open>error\<close> waits \<open>15000 * tries\<close> and continues, an exception is caught and the
  loop continues, any other answer returns its \<open>value\<close>; after the loop the function
  returns \<open>undefined\<close>.
\<close>

function getSMA_loop :: "collab \<Rightarrow> string \<Rightarrow> string \<Rightarrow> nat \<Rightarrow> nat \<Rightarrow> event list
    \<Rightarrow> jsval \<times> event list" where
  "getSMA_loop c symbol interval period tries h =
     (if tries < 3 then
        (case fetch c (h @ [Fetch symbol interval period]) of
           FetchThrows \<Rightarrow>
             getSMA_loop c symbol interval period (tries + 1)
               (h @ [Fetch symbol interval period])
         | FetchJson err val \<Rightarrow>
             if err \<noteq> None then
               getSMA_loop c symbol interval period (tries + 1)
                 (h @ [Fetch symbol interval period, Wait (15000 * tries)])
             else (val, h @ [Fetch symbol interval period]))
      else (Undefined, h))"
  by pat_completeness auto
termination
  by (relation "measure (\<lambda>(c, symbol, interval, period, tries, h). 3 - tries)") auto

declare getSMA_loop.simps [simp del]

definition getSMA :: "collab \<Rightarrow> string option \<Rightarrow> string option \<Rightarrow> string \<Rightarrow> nat \<Rightarrow> event list
    \<Rightarrow> jsval \<times> event list" where
  "getSMA c a cur interval period h =
     (let cur' = (if cur = Some ''USD'' then ''USDT'' else ''USD'')
      in getSMA_loop c (js_str a @ ''/'' @ cur') interval period 1 h)"

section \<open>Placing an order\<close>

text \<open>
  \<open>calculateWeight\<close>: the moving average, then the book ticker, then the arithmetic.
  Reading a field of an absent \<open>weight\<close> throws.
\<close>

definition calculateWeight :: "collab \<Rightarrow> trade \<Rightarrow> event list \<Rightarrow> (error + jsval) \<times> event list" where
  "calculateWeight c t h =
     (let pair = js_str (asset t) @ js_str (currency t);
          (sma, h1) = getSMA c (asset t) (currency t) ''1d'' 200 h;
          h2 = h1 @ [GetBookTicker pair];
          currentPrice = to_num (bidPrice (getBookTicker c h2))
      in case weight t of
           None \<Rightarrow> (Inl TypeError, h2)
         | Some w \<Rightarrow> (Inr (updatedQuoteOrderQty (quoteOrderQty t) w sma currentPrice), h2))"

text \<open>
  The first statement of \<open>placeOrder\<close>: the weight is calculated when it is configured
  and the currency is \<open>USD\<close>, and the configured \<open>quoteOrderQty\<close> is taken otherwise.
\<close>

definition resolveQuoteOrderQty :: "collab \<Rightarrow> trade \<Rightarrow> event list \<Rightarrow> (error + jsval) \<times> event list" where
  "resolveQuoteOrderQty c t h =
     (if weight t \<noteq> None \<and> currency t = Some ''USD'' then calculateWeight c t h
      else (Inr (quoteOrderQty t), h))"

definition errorText :: "string \<Rightarrow> response \<Rightarrow> string" where
  "errorText pair r =
     (if truthy_str (msg r) then js_str (msg r)
      else ''Unexpected error placing buy order for '' @ pair)"

definition placeOrder :: "collab \<Rightarrow> trade \<Rightarrow> event list \<Rightarrow> (error + unit) \<times> event list" where
  "placeOrder c t h =
     (let pair = js_str (asset t) @ js_str (currency t) in
      case resolveQuoteOrderQty c t h of
        (Inl e, h1) \<Rightarrow> (Inl e, h1)
      | (Inr qty, h1) \<Rightarrow>
          if loose_eq_zero qty then (Inr (), h1 @ [Telegram (SkippedMsg pair)])
          else
            let h2 = h1 @ [MarketBuy pair (quantity t) qty];
                r = marketBuy c h2
            in if truthy_id (orderId r) then
                 (case fills r of
                    [] \<Rightarrow> (Inl TypeError, h2)
                  | f # fs \<Rightarrow>
                      let d = getOrderDetails c (asset t) (currency t) r;
                          h3 = h2 @ [SaveOrder r, SendGrid (ExecutedMsg pair),
                                         Telegram (ExecutedMsg pair), GetAccountInfo];
                          info = getAccountInfo c h3
                      in case find (\<lambda>item. Some (balance_asset item) = currency t)
                                   (balances info) of
                           None \<Rightarrow> (Inl TypeError, h3)
                         | Some b \<Rightarrow>
                             if jgt (jmul (to_num (totalCost d)) (Fin NUM_TRADE_THRESHOLD))
                                    (to_num (free b))
                             then (Inr (), h3 @ [Telegram (BalanceLowMsg (js_str (currency t))
                                                                            (free b))])
                             else (Inr (), h3))
               else (Inr (), h2 @ [SendGrid (FailedMsg pair (errorText pair r)),
                                     Telegram (FailedMsg pair (errorText pair r))]))"

section \<open>Starting the bot\<close>

record config =
  BINANCE_KEY :: "string option"
  BINANCE_SECRET :: "string option"

definition checkForParameters :: "config \<Rightarrow> trade list \<Rightarrow> bool" where
  "checkForParameters cfg trades =
     (if \<not> truthy_str (BINANCE_KEY cfg) \<or> \<not> truthy_str (BINANCE_SECRET cfg) then False
      else if trades = [] then False
      else True)"

definition checkForBinanceConnectivity :: "collab \<Rightarrow> event list \<Rightarrow> (error + bool) \<times> event list" where
  "checkForBinanceConnectivity c h =
     (let h1 = h @ [GetAccountInfo];
          info = getAccountInfo c h1
      in if truthy_str (info_msg info) then (Inl (AccountError (js_str (info_msg info))), h1)
         else if \<not> canTrade info then (Inr False, h1)
         else (Inr True, h1))"

text \<open>
  The loop of \<open>runBot\<close> over the trades: a trade with neither size, or without asset
  or currency, is skipped; a trade with both sizes throws; for any other trade the line
  that is logged describes its schedule with \<open>cronstrue.toString\<close> when it has one,
  which may throw; then the trade is placed at once when it has no schedule, and
  registered with the scheduler when it has one.
\<close>

fun runBot_loop :: "collab \<Rightarrow> trade list \<Rightarrow> event list \<Rightarrow> (error + unit) \<times> event list" where
  "runBot_loop c [] h = (Inr (), h)"
| "runBot_loop c (t # ts) h =
     (if (\<not> truthy (quantity t) \<and> \<not> truthy (quoteOrderQty t))
          \<or> \<not> truthy_str (asset t) \<or> \<not> truthy_str (currency t)
      then runBot_loop c ts h
      else if truthy (quantity t) \<and> truthy (quoteOrderQty t) then (Inl BothSizesError, h)
      else if truthy_str (schedule t) \<and> cronstrue c (js_str (schedule t)) = None
      then (Inl (CronstrueError (js_str (schedule t))), h)
      else if \<not> truthy_str (schedule t) then
        (case placeOrder c t h of
           (Inl e, h1) \<Rightarrow> (Inl e, h1)
         | (Inr u, h1) \<Rightarrow> runBot_loop c ts h1)
      else runBot_loop c ts (h @ [ScheduleJob (js_str (schedule t)) t]))"

text \<open>
  \<open>getBuyDetails\<close> describes every trade of the configuration, the skipped ones too,
  and so it throws on the first schedule that \<open>cronstrue\<close> cannot read. Only whether
  it returns matters here: its text goes into the start notification.
\<close>

fun getBuyDetails :: "collab \<Rightarrow> trade list \<Rightarrow> error + unit" where
  "getBuyDetails c [] = Inr ()"
| "getBuyDetails c (t # ts) =
     (if truthy_str (schedule t) \<and> cronstrue c (js_str (schedule t)) = None
      then Inl (CronstrueError (js_str (schedule t)))
      else getBuyDetails c ts)"

definition runBot :: "config \<Rightarrow> collab \<Rightarrow> trade list \<Rightarrow> event list \<Rightarrow> (error + unit) \<times> event list" where
  "runBot cfg c trades h =
     (if \<not> checkForParameters cfg trades then (Inr (), h)
      else case checkForBinanceConnectivity c h of
             (Inl e, h1) \<Rightarrow> (Inl e, h1)
           | (Inr ok, h1) \<Rightarrow>
               if \<not> ok then (Inr (), h1)
               else (case runBot_loop c trades h1 of
                       (Inl e, h2) \<Rightarrow> (Inl e, h2)
                     | (Inr u, h2) \<Rightarrow>
                         (case getBuyDetails c trades of
                            Inl e \<Rightarrow> (Inl e, h2)
                          | Inr u \<Rightarrow> (Inr (), h2 @ [Telegram StartedMsg]))))"

section \<open>Classifying events and values\<close>

text \<open>
  The events of a weight calculation (the indicator fetches for one symbol, the waits
  between them, the book ticker), the events of each other kind, the answers to a
  fetch that make \<open>getSMA\<close> try again, and the numbers that are finite.
\<close>

fun lookup_event :: "string \<Rightarrow> event \<Rightarrow> bool" where
  "lookup_event sy (Fetch s i p) = (s = sy)"
| "lookup_event sy (Wait n) = True"
| "lookup_event sy (GetBookTicker p) = True"
| "lookup_event sy e = False"

fun fetch_failed :: "fetch_result \<Rightarrow> bool" where
  "fetch_failed FetchThrows = True"
| "fetch_failed (FetchJson err val) = (err \<noteq> None)"

fun is_order :: "event \<Rightarrow> bool" where
  "is_order (MarketBuy p q s) = True"
| "is_order e = False"

fun is_save :: "event \<Rightarrow> bool" where
  "is_save (SaveOrder r) = True"
| "is_save e = False"

fun is_sendgrid :: "event \<Rightarrow> bool" where
  "is_sendgrid (SendGrid m) = True"
| "is_sendgrid e = False"

fun is_telegram :: "event \<Rightarrow> bool" where
  "is_telegram (Telegram m) = True"
| "is_telegram e = False"

fun finite_num :: "jsnum \<Rightarrow> bool" where
  "finite_num (Fin r) = True"
| "finite_num x = False"

section \<open>Example values\<close>

text \<open>
  Weights, trades, two answers of the exchange, a configuration and collaborators, on
  which the theorems below are instantiated: a family with constant answers, one whose
  indicator service is down for the first three calls only, and one with a given total
  cost and free balance. The literals \<open>1.2\<close> and \<open>2.4\<close> are the binary64 values
  nearest to them.
\<close>

definition example_weight :: weightSpec where
  "example_weight = \<lparr>maxATHFactor = Fin 1, ATH = Fin 50000,
                      mayerMultipleAvg = round64 (12 / 10),
                      mayerMultipleMax = round64 (24 / 10)\<rparr>"

definition example_trade :: trade where
  "example_trade = \<lparr>asset = Some ''BTC'', currency = Some ''USD'', quantity = Undefined,
                     quoteOrderQty = Num (Fin 100), schedule = None,
                     weight = Some example_weight\<rparr>"

definition rejected :: response where
  "rejected = \<lparr>orderId = None, msg = Some ''Account has insufficient balance'', fills = []\<rparr>"

definition filled :: response where
  "filled = \<lparr>orderId = Some 1, msg = None, fills = [Fin 25000]\<rparr>"

definition example_collab :: "fetch_result \<Rightarrow> rat \<Rightarrow> response \<Rightarrow> rat \<Rightarrow> collab" where
  "example_collab f price r fr =
     \<lparr>fetch = (\<lambda>l. f),
      getBookTicker = (\<lambda>l. \<lparr>bidPrice = Num (Fin price)\<rparr>),
      marketBuy = (\<lambda>l. r),
      getOrderDetails = (\<lambda>a cur r. \<lparr>totalCost = Num (Fin 50)\<rparr>),
      getAccountInfo = (\<lambda>l. \<lparr>info_msg = None, canTrade = True,
                               balances = [\<lparr>balance_asset = ''USD'',
                                            free = Num (Fin fr)\<rparr>]\<rparr>),
      cronstrue = (\<lambda>e. Some e)\<rparr>"

definition example_config :: config where
  "example_config = \<lparr>BINANCE_KEY = Some ''key'', BINANCE_SECRET = Some ''secret''\<rparr>"

definition static_trade :: trade where
  "static_trade = \<lparr>asset = Some ''ETH'', currency = Some ''EUR'', quantity = Undefined,
                    quoteOrderQty = Num (Fin 15), schedule = None,
                    weight = Some example_weight\<rparr>"

definition scheduled_trade :: trade where
  "scheduled_trade = \<lparr>asset = Some ''ETH'', currency = Some ''USD'', quantity = Num (Fin 1),
                       quoteOrderQty = Undefined, schedule = Some ''0 12 * * *'',
                       weight = None\<rparr>"

definition conflicting_trade :: trade where
  "conflicting_trade = \<lparr>asset = Some ''BNB'', currency = Some ''USD'', quantity = Num (Fin 1),
                         quoteOrderQty = Num (Fin 10), schedule = None, weight = None\<rparr>"

definition flat_weight :: weightSpec where
  "flat_weight = \<lparr>maxATHFactor = Fin 1, ATH = Fin 50000,
                   mayerMultipleAvg = round64 (24 / 10),
                   mayerMultipleMax = round64 (24 / 10)\<rparr>"

definition flat_trade :: trade where
  "flat_trade = \<lparr>asset = Some ''BTC'', currency = Some ''USD'', quantity = Undefined,
                  quoteOrderQty = Num (Fin 100), schedule = None, weight = Some flat_weight\<rparr>"

definition outage_collab :: collab where
  "outage_collab =
     (example_collab FetchThrows 25000 filled 100)
       \<lparr>fetch := (\<lambda>l. if length l \<le> 3 then FetchThrows
                       else FetchJson None (Num (Fin 20000)))\<rparr>"

definition balance_collab :: "jsval \<Rightarrow> jsval \<Rightarrow> collab" where
  "balance_collab tc fr =
     (example_collab (FetchJson None (Num (Fin 20000))) 25000 filled 0)
       \<lparr>getOrderDetails := (\<lambda>a cur r. \<lparr>totalCost = tc\<rparr>),
        getAccountInfo := (\<lambda>l. \<lparr>info_msg = None, canTrade = True,
                                  balances = [\<lparr>balance_asset = ''USD'', free = fr\<rparr>]\<rparr>)\<rparr>"

section \<open>Values of the arithmetic\<close>

text \<open>The roundings that the examples go through, each evaluated from the definition.\<close>

lemma round64_0 [simp]: "round64 0 = Fin 0"
  by (simp add: round64_def)

lemma round64_1 [simp]: "round64 1 = Fin 1"
  by code_simp

lemma round64_v0 [simp]: "round64 (- (1 / 2)) = Fin (- (1 / 2))"
  by code_simp

lemma round64_v1 [simp]: "round64 (- (1 / 4)) = Fin (- (1 / 4))"
  by code_simp

lemma round64_v2 [simp]: "round64 (- (900719925474099 / 4503599627370496)) = Fin (- (900719925474099 / 4503599627370496))"
  by code_simp

lemma round64_v4 [simp]: "round64 (811296384146066456669919861801 / 20282409603651670423947251286016) = Fin (720575940379279 / 18014398509481984)"
  by code_simp

lemma round64_v5 [simp]: "round64 (7 / 100) = Fin (1261007895663739 / 18014398509481984)"
  by code_simp

lemma round64_v6 [simp]: "round64 (1 / 4) = Fin (1 / 4)"
  by code_simp

lemma round64_v7 [simp]: "round64 (7 / 20) = Fin (3152519739159347 / 9007199254740992)"
  by code_simp

lemma round64_v8 [simp]: "round64 (6305039478318695 / 18014398509481984) = Fin (6305039478318695 / 18014398509481984)"
  by code_simp

lemma round64_v9 [simp]: "round64 (4315949642896725 / 9007199254740992) = Fin (4315949642896725 / 9007199254740992)"
  by code_simp

lemma round64_v10 [simp]: "round64 (1 / 2) = Fin (1 / 2)"
  by code_simp

lemma round64_v11 [simp]: "round64 (562949953421312 / 1080863910568919) = Fin (4691249611844267 / 9007199254740992)"
  by code_simp

lemma round64_v12 [simp]: "round64 (4315949642896725 / 4503599627370496) = Fin (4315949642896725 / 4503599627370496)"
  by code_simp

lemma round64_v14 [simp]: "round64 (6 / 5) = Fin (5404319552844595 / 4503599627370496)"
  by code_simp

lemma round64_v15 [simp]: "round64 (5 / 4) = Fin (5 / 4)"
  by code_simp

lemma round64_v16 [simp]: "round64 (6755399441055744 / 5404319552844595) = Fin (5 / 4)"
  by code_simp

lemma round64_v17 [simp]: "round64 2 = Fin 2"
  by code_simp

lemma round64_v18 [simp]: "round64 (12 / 5) = Fin (5404319552844595 / 2251799813685248)"
  by code_simp

lemma round64_v19 [simp]: "round64 3 = Fin 3"
  by code_simp

lemma round64_v20 [simp]: "round64 10 = Fin 10"
  by code_simp

lemma round64_v21 [simp]: "round64 15 = Fin 15"
  by code_simp

lemma round64_v22 [simp]: "round64 20 = Fin 20"
  by code_simp

lemma round64_v23 [simp]: "round64 (6743671317026133 / 281474976710656) = Fin (6743671317026133 / 281474976710656)"
  by code_simp

lemma round64_v24 [simp]: "round64 (599 / 25) = Fin (3372070220993659 / 140737488355328)"
  by code_simp

lemma round64_v25 [simp]: "round64 50 = Fin 50"
  by code_simp

lemma round64_v26 [simp]: "round64 (107898741072418125 / 1125899906842624) = Fin (6743671317026133 / 70368744177664)"
  by code_simp

lemma round64_v27 [simp]: "round64 100 = Fin 100"
  by code_simp

lemma round64_v28 [simp]: "round64 (3479 / 25) = Fin (4896257219881861 / 35184372088832)"
  by code_simp

lemma round64_v29 [simp]: "round64 250 = Fin 250"
  by code_simp

lemma round64_v30 [simp]: "round64 500 = Fin 500"
  by code_simp

lemma round64_v31 [simp]: "round64 (24481286099409305 / 35184372088832) = Fin (3060160762426163 / 4398046511104)"
  by code_simp

lemma round64_v32 [simp]: "round64 (3479 / 5) = Fin (3060160762426163 / 4398046511104)"
  by code_simp

lemma round64_v33 [simp]: "round64 20000 = Fin 20000"
  by code_simp

lemma round64_v34 [simp]: "round64 25000 = Fin 25000"
  by code_simp

lemma round64_v35 [simp]: "round64 60000 = Fin 60000"
  by code_simp

lemmas weight_calc_defs = updatedQuoteOrderQty_def mayerFactor_def mayerWeightConstant_def
  currentWeightMultiple_def mayerMultiple_def athFactor_def Let_def

lemma example_amount:
  "updatedQuoteOrderQty (Num (Fin 100)) example_weight (Num (Fin 20000)) (Fin 25000)
     = Fixed2 (Fin (2396 / 100))"
proof -
  have fl: "\<lfloor>(168626967297742157::rat) / 70368744177664\<rfloor> = 2396"
    by code_simp
  show ?thesis
    by (simp add: weight_calc_defs example_weight_def fl)
qed

lemma example_amount_high:
  "updatedQuoteOrderQty (Num (Fin 100)) example_weight (Num (Fin 20000)) (Fin 60000)
     = Fixed2 (Fin 0)"
  by (simp add: weight_calc_defs example_weight_def)

lemma flat_amount:
  "updatedQuoteOrderQty (Num (Fin 100)) flat_weight (Num (Fin 20000)) (Fin 25000)
     = Fixed2 PInf"
  by (simp add: weight_calc_defs flat_weight_def)

section \<open>Auxiliary facts about the event log\<close>

lemma getSMA_loop_3: "getSMA_loop c sy i p (Suc (Suc (Suc 0))) h = (Undefined, h)"
  by (simp add: getSMA_loop.simps)

lemma getSMA_loop_2:
  "getSMA_loop c sy i p (Suc (Suc 0)) h =
     (case fetch c (h @ [Fetch sy i p]) of
        FetchThrows \<Rightarrow> (Undefined, h @ [Fetch sy i p])
      | FetchJson err val \<Rightarrow>
          if err \<noteq> None then (Undefined, h @ [Fetch sy i p, Wait 30000])
          else (val, h @ [Fetch sy i p]))"
  by (subst getSMA_loop.simps) (simp add: getSMA_loop_3 split: fetch_result.splits)

lemma getSMA_loop_1:
  "getSMA_loop c sy i p (Suc 0) h =
     (case fetch c (h @ [Fetch sy i p]) of
        FetchThrows \<Rightarrow> getSMA_loop c sy i p (Suc (Suc 0)) (h @ [Fetch sy i p])
      | FetchJson err val \<Rightarrow>
          if err \<noteq> None then getSMA_loop c sy i p (Suc (Suc 0)) (h @ [Fetch sy i p, Wait 15000])
          else (val, h @ [Fetch sy i p]))"
  by (subst getSMA_loop.simps) (simp split: fetch_result.splits)

lemma getSMA_loop_events:
  "\<exists>evs. snd (getSMA_loop c sy i p (Suc 0) h) = h @ Fetch sy i p # evs
     \<and> (\<forall>e\<in>set evs. e = Fetch sy i p \<or> (\<exists>n. e = Wait n))"
  by (simp add: getSMA_loop_1 getSMA_loop_2 split: fetch_result.splits)

lemma getSMA_loop_2_failed:
  "fetch_failed (fetch c (h @ [Fetch sy i p])) \<Longrightarrow>
   fst (getSMA_loop c sy i p (Suc (Suc 0)) h) = Undefined"
  by (cases "fetch c (h @ [Fetch sy i p])") (simp_all add: getSMA_loop_2)

lemma getSMA_loop_exhausted:
  assumes "fetch_failed (fetch c (h @ [Fetch sy i p]))"
    and "fetch_failed (fetch c (h @ Fetch sy i p #
           (if fetch c (h @ [Fetch sy i p]) = FetchThrows then [] else [Wait 15000])
           @ [Fetch sy i p]))"
  shows "fst (getSMA_loop c sy i p (Suc 0) h) = Undefined"
proof (cases "fetch c (h @ [Fetch sy i p])")
  case FetchThrows
  then show ?thesis
    using assms(2) getSMA_loop_2_failed[of c "h @ [Fetch sy i p]" sy i p]
    by (simp add: getSMA_loop_1)
next
  case (FetchJson err val)
  moreover have "err \<noteq> None"
    using assms(1) FetchJson by simp
  ultimately show ?thesis
    using assms(2) getSMA_loop_2_failed[of c "h @ [Fetch sy i p, Wait 15000]" sy i p]
    by (simp add: getSMA_loop_1)
qed

lemma getSMA_events:
  "\<exists>evs. snd (getSMA c a cur i p h)
            = h @ Fetch (js_str a @ ''/'' @ (if cur = Some ''USD'' then ''USDT'' else ''USD'')) i p # evs
     \<and> (\<forall>e\<in>set evs. lookup_event (js_str a @ ''/'' @ (if cur = Some ''USD'' then ''USDT'' else ''USD'')) e
                     \<and> \<not> is_order e \<and> \<not> is_save e \<and> \<not> is_sendgrid e \<and> \<not> is_telegram e
                     \<and> (\<forall>x. e \<noteq> GetBookTicker x))"
proof -
  obtain evs where
    "snd (getSMA_loop c (js_str a @ ''/'' @ (if cur = Some ''USD'' then ''USDT'' else ''USD'')) i p (Suc 0) h)
       = h @ Fetch (js_str a @ ''/'' @ (if cur = Some ''USD'' then ''USDT'' else ''USD'')) i p # evs"
    "\<forall>e\<in>set evs. e = Fetch (js_str a @ ''/'' @ (if cur = Some ''USD'' then ''USDT'' else ''USD'')) i p \<or> (\<exists>n. e = Wait n)"
    using getSMA_loop_events by blast
  then show ?thesis
    unfolding getSMA_def Let_def One_nat_def
    by (intro exI[of _ evs]) auto
qed

lemma calculateWeight_events:
  assumes "currency t = Some ''USD''"
  shows "\<exists>evs. snd (calculateWeight c t h)
            = h @ Fetch (js_str (asset t) @ ''/USDT'') ''1d'' 200 # evs @ [GetBookTicker (js_str (asset t) @ ''USD'')]
     \<and> (\<forall>e\<in>set evs. lookup_event (js_str (asset t) @ ''/USDT'') e
                     \<and> \<not> is_order e \<and> \<not> is_save e \<and> \<not> is_sendgrid e \<and> \<not> is_telegram e
                     \<and> (\<forall>x. e \<noteq> GetBookTicker x))"
proof -
  obtain evs where e:
    "snd (getSMA c (asset t) (currency t) ''1d'' 200 h)
            = h @ Fetch (js_str (asset t) @ ''/USDT'') ''1d'' 200 # evs"
    "\<forall>e\<in>set evs. lookup_event (js_str (asset t) @ ''/USDT'') e
                     \<and> \<not> is_order e \<and> \<not> is_save e \<and> \<not> is_sendgrid e \<and> \<not> is_telegram e
                     \<and> (\<forall>x. e \<noteq> GetBookTicker x)"
    using getSMA_events[of c "asset t" "currency t" "''1d''" 200 h] assms by auto
  show ?thesis
    using e assms unfolding calculateWeight_def Let_def
    by (intro exI[of _ evs]) (auto split: prod.splits option.splits)
qed

lemma placeOrder_tail:
  "\<exists>tl. snd (placeOrder c t h) = snd (resolveQuoteOrderQty c t h) @ tl
      \<and> (\<forall>e\<in>set tl. \<forall>sy. \<not> lookup_event sy e)"
  unfolding placeOrder_def Let_def
  by (auto split: prod.splits sum.splits list.splits option.splits)

lemma placeOrder_events:
  "\<exists>evs tl. snd (placeOrder c t h) = h @ evs @ tl
      \<and> (\<forall>e\<in>set evs. lookup_event (js_str (asset t) @ ''/USDT'') e)
      \<and> (\<forall>e\<in>set tl. \<forall>sy. \<not> lookup_event sy e)"
proof -
  obtain tl where tl: "snd (placeOrder c t h) = snd (resolveQuoteOrderQty c t h) @ tl"
    "\<forall>e\<in>set tl. \<forall>sy. \<not> lookup_event sy e"
    using placeOrder_tail by blast
  show ?thesis
  proof (cases "weight t \<noteq> None \<and> currency t = Some ''USD''")
    case True
    then obtain evs where
      "snd (calculateWeight c t h)
            = h @ Fetch (js_str (asset t) @ ''/USDT'') ''1d'' 200 # evs @ [GetBookTicker (js_str (asset t) @ ''USD'')]"
      "\<forall>e\<in>set evs. lookup_event (js_str (asset t) @ ''/USDT'') e"
      using calculateWeight_events[of t c h] by blast
    then show ?thesis using tl True
      by (intro exI[of _ "Fetch (js_str (asset t) @ ''/USDT'') ''1d'' 200 # evs @ [GetBookTicker (js_str (asset t) @ ''USD'')]"] exI[of _ tl])
         (auto simp add: resolveQuoteOrderQty_def)
  next
    case False
    then show ?thesis using tl
      by (intro exI[of _ "[]"] exI[of _ tl]) (auto simp add: resolveQuoteOrderQty_def)
  qed
qed

lemma resolve_events:
  "\<exists>evs. snd (resolveQuoteOrderQty c t h) = h @ evs
     \<and> (\<forall>e\<in>set evs. \<not> is_order e \<and> \<not> is_save e \<and> \<not> is_sendgrid e \<and> \<not> is_telegram e)"
proof (cases "weight t \<noteq> None \<and> currency t = Some ''USD''")
  case True
  then obtain evs where
    "snd (calculateWeight c t h)
       = h @ Fetch (js_str (asset t) @ ''/USDT'') ''1d'' 200 # evs @ [GetBookTicker (js_str (asset t) @ ''USD'')]"
    "\<forall>e\<in>set evs. \<not> is_order e \<and> \<not> is_save e \<and> \<not> is_sendgrid e \<and> \<not> is_telegram e"
    using calculateWeight_events[of t c h] by blast
  then show ?thesis using True
    by (intro exI[of _ "Fetch (js_str (asset t) @ ''/USDT'') ''1d'' 200 # evs @ [GetBookTicker (js_str (asset t) @ ''USD'')]"])
       (auto simp add: resolveQuoteOrderQty_def)
next
  case False
  then show ?thesis
    by (intro exI[of _ "[]"]) (auto simp add: resolveQuoteOrderQty_def)
qed

lemma placeOrder_unweighted:
  assumes "\<not> (weight t \<noteq> None \<and> currency t = Some ''USD'')"
  shows "\<exists>tl. snd (placeOrder c t h)
           = h @ (if loose_eq_zero (quoteOrderQty t)
                  then Telegram (SkippedMsg (js_str (asset t) @ js_str (currency t)))
                  else MarketBuy (js_str (asset t) @ js_str (currency t)) (quantity t)
                         (quoteOrderQty t)) # tl
         \<and> (\<forall>e\<in>set tl. \<forall>sy. \<not> lookup_event sy e)"
  using assms unfolding placeOrder_def resolveQuoteOrderQty_def Let_def
  by (auto split: list.splits option.splits)

lemma mayerFactor_cases:
  "mayerFactor w sma p = PInf \<or> (\<exists>r. mayerFactor w sma p = Fin r \<and> 0 \<le> r)"
  unfolding mayerFactor_def Let_def
  by (cases "jmul (mayerWeightConstant w) (currentWeightMultiple w sma p)") simp_all

lemma example_resolve_high_price:
  "resolveQuoteOrderQty (example_collab (FetchJson None (Num (Fin 20000))) 60000 rejected 100)
       example_trade []
     = (Inr (Fixed2 (Fin 0)), [Fetch ''BTC/USDT'' ''1d'' 200, GetBookTicker ''BTCUSD''])"
  by (simp add: resolveQuoteOrderQty_def calculateWeight_def getSMA_def getSMA_loop_1
      example_collab_def example_trade_def Let_def example_amount_high)

lemma example_resolve:
  "resolveQuoteOrderQty (example_collab (FetchJson None (Num (Fin 20000))) 25000 r fr)
       example_trade h
     = (Inr (Fixed2 (Fin (2396 / 100))),
        h @ [Fetch ''BTC/USDT'' ''1d'' 200, GetBookTicker ''BTCUSD''])"
  by (simp add: resolveQuoteOrderQty_def calculateWeight_def getSMA_def getSMA_loop_1
      example_collab_def example_trade_def Let_def example_amount)

lemma mayerFactor_undefined: "mayerFactor w Undefined p = Fin 0"
proof -
  have 1: "mayerMultiple Undefined p = NaN"
    by (cases p) (simp_all add: mayerMultiple_def)
  have 2: "currentWeightMultiple w Undefined p = NaN"
    by (cases "mayerMultipleMax w") (simp_all add: currentWeightMultiple_def 1)
  have 3: "jmul (mayerWeightConstant w) NaN = NaN"
    by (cases "mayerWeightConstant w") simp_all
  show ?thesis
    by (simp add: mayerFactor_def 2 3)
qed

lemma example_getBuyDetails: "getBuyDetails (example_collab f price r fr) ts = Inr ()"
  by (induction ts) (simp_all add: example_collab_def)

lemma runBot_loop_append:
  "runBot_loop c (xs @ ys) h =
     (case runBot_loop c xs h of
        (Inl e, h1) \<Rightarrow> (Inl e, h1)
      | (Inr u, h1) \<Rightarrow> runBot_loop c ys h1)"
  by (induction xs arbitrary: h) (auto split: prod.splits sum.splits)

lemma example_connectivity:
  "checkForBinanceConnectivity (example_collab f price r fr) h = (Inr True, h @ [GetAccountInfo])"
  by (simp add: checkForBinanceConnectivity_def example_collab_def Let_def)

lemma example_static_order:
  "placeOrder (example_collab f price rejected fr) static_trade h
     = (Inr (), h @ [MarketBuy ''ETHEUR'' Undefined (Num (Fin 15)),
                     SendGrid (FailedMsg ''ETHEUR'' ''Account has insufficient balance''),
                     Telegram (FailedMsg ''ETHEUR'' ''Account has insufficient balance'')])"
  by (simp add: placeOrder_def resolveQuoteOrderQty_def static_trade_def Let_def errorText_def
      example_collab_def rejected_def)

lemma example_loop_prefix:
  "runBot_loop (example_collab f price rejected fr) [static_trade, scheduled_trade] h
     = (Inr (), h @ [MarketBuy ''ETHEUR'' Undefined (Num (Fin 15)),
                     SendGrid (FailedMsg ''ETHEUR'' ''Account has insufficient balance''),
                     Telegram (FailedMsg ''ETHEUR'' ''Account has insufficient balance''),
                     ScheduleJob ''0 12 * * *'' scheduled_trade])"
proof -
  have s: "truthy_str (asset static_trade)" "truthy_str (currency static_trade)"
    "\<not> truthy (quantity static_trade)" "truthy (quoteOrderQty static_trade)"
    "\<not> truthy_str (schedule static_trade)"
    by (simp_all add: static_trade_def)
  have d: "truthy_str (asset scheduled_trade)" "truthy_str (currency scheduled_trade)"
    "truthy (quantity scheduled_trade)" "\<not> truthy (quoteOrderQty scheduled_trade)"
    "truthy_str (schedule scheduled_trade)" "js_str (schedule scheduled_trade) = ''0 12 * * *''"
    by (simp_all add: scheduled_trade_def)
  have c: "cronstrue (example_collab f price rejected fr) e = Some e" for e
    by (simp add: example_collab_def)
  show ?thesis
    by (simp add: s d c example_static_order)
qed

lemma runBot_loop_extends: "\<exists>evs. snd (runBot_loop c ts h) = h @ evs"
proof (induction ts arbitrary: h)
  case Nil
  then show ?case by simp
next
  case (Cons t ts)
  obtain evs tl where p: "snd (placeOrder c t h) = h @ evs @ tl"
    using placeOrder_events[of c t h] by blast
  obtain evs1 where 1: "snd (runBot_loop c ts h) = h @ evs1"
    using Cons.IH by blast
  obtain evs2 where 2: "snd (runBot_loop c ts (snd (placeOrder c t h))) = snd (placeOrder c t h) @ evs2"
    using Cons.IH by blast
  obtain evs3 where 3: "snd (runBot_loop c ts (h @ [ScheduleJob (js_str (schedule t)) t]))
                          = (h @ [ScheduleJob (js_str (schedule t)) t]) @ evs3"
    using Cons.IH by blast
  show ?case
    using p 1 2 3 by (auto split: prod.splits sum.splits)
qed

lemma placeOrder_weighted_first:
  assumes "weight t \<noteq> None" and "currency t = Some ''USD''"
  shows "\<exists>rest. snd (placeOrder c t h)
           = h @ Fetch (js_str (asset t) @ ''/USDT'') ''1d'' 200 # rest"
proof -
  obtain tl where tl: "snd (placeOrder c t h) = snd (resolveQuoteOrderQty c t h) @ tl"
    using placeOrder_tail[of c t h] by blast
  obtain evs where "snd (calculateWeight c t h)
       = h @ Fetch (js_str (asset t) @ ''/USDT'') ''1d'' 200 # evs @ [GetBookTicker (js_str (asset t) @ ''USD'')]"
    using calculateWeight_events[of t c h] assms by blast
  then show ?thesis
    using tl assms by (simp add: resolveQuoteOrderQty_def)
qed

lemma mayerWeightConstant_equal:
  assumes "mayerMultipleAvg w = Fin a" and "mayerMultipleMax w = Fin a" and "a \<noteq> 0"
  shows "mayerWeightConstant w = PInf"
  using assms by (simp add: mayerWeightConstant_def)

lemma flat_resolve:
  "resolveQuoteOrderQty (example_collab (FetchJson None (Num (Fin 20000))) 25000 r fr)
       flat_trade h
     = (Inr (Fixed2 PInf), h @ [Fetch ''BTC/USDT'' ''1d'' 200, GetBookTicker ''BTCUSD''])"
  by (simp add: resolveQuoteOrderQty_def calculateWeight_def getSMA_def getSMA_loop_1
      example_collab_def flat_trade_def Let_def flat_amount)

lemma flat_order:
  "placeOrder (example_collab (FetchJson None (Num (Fin 20000))) 25000 rejected fr) flat_trade h
     = (Inr (), h @ [Fetch ''BTC/USDT'' ''1d'' 200, GetBookTicker ''BTCUSD'',
                     MarketBuy ''BTCUSD'' Undefined (Fixed2 PInf),
                     SendGrid (FailedMsg ''BTCUSD'' ''Account has insufficient balance''),
                     Telegram (FailedMsg ''BTCUSD'' ''Account has insufficient balance'')])"
  by (simp add: placeOrder_def flat_resolve Let_def errorText_def)
     (simp add: example_collab_def rejected_def flat_trade_def)

lemma flat_runBot:
  "runBot example_config (example_collab (FetchJson None (Num (Fin 20000))) 25000 rejected 100)
       [flat_trade] []
     = (Inr (), [GetAccountInfo, Fetch ''BTC/USDT'' ''1d'' 200, GetBookTicker ''BTCUSD'',
                 MarketBuy ''BTCUSD'' Undefined (Fixed2 PInf),
                 SendGrid (FailedMsg ''BTCUSD'' ''Account has insufficient balance''),
                 Telegram (FailedMsg ''BTCUSD'' ''Account has insufficient balance''),
                 Telegram StartedMsg])"
proof -
  have s: "truthy_str (asset flat_trade)" "truthy_str (currency flat_trade)"
    "\<not> truthy (quantity flat_trade)" "truthy (quoteOrderQty flat_trade)"
    "\<not> truthy_str (schedule flat_trade)"
    by (simp_all add: flat_trade_def)
  show ?thesis
    by (simp add: runBot_def checkForParameters_def example_config_def example_connectivity
        s flat_order example_getBuyDetails)
qed

section \<open>Properties of the weight calculation\<close>

text \<open>
  C1. With \<open>quoteOrderQty = 100\<close>, \<open>maxATHFactor = 1.0\<close>, \<open>ATH = 50000\<close>,
  \<open>mayerMultipleAvg = 1.2\<close>, \<open>mayerMultipleMax = 2.4\<close>, a moving average of \<open>20000\<close>
  and a current price of \<open>25000\<close>, \<open>calculateWeight\<close> gives \<open>mayerMultiple = 1.25\<close>,
  \<open>mayerWeightConstant = 2\<close>, \<open>currentWeightMultiple = 1 - 1.25 / 2.4\<close>,
  \<open>mayerFactor = mayerWeightConstant * currentWeightMultiple\<close>,
  \<open>athFactor = (1.0 - 25000 / 50000)^2 = 0.25\<close>, and the product
  \<open>quoteOrderQty * mayerFactor * athFactor\<close> rounded to two decimals, which is \<open>23.96\<close>.
\<close>

theorem calculateWeight_example:
  "mayerMultiple (Num (Fin 20000)) (Fin 25000) = Fin (125 / 100)
   \<and> mayerWeightConstant example_weight = Fin 2
   \<and> currentWeightMultiple example_weight (Num (Fin 20000)) (Fin 25000)
       = jsub (Fin 1) (jdiv (Fin (125 / 100)) (round64 (24 / 10)))
   \<and> mayerFactor example_weight (Num (Fin 20000)) (Fin 25000)
       = jmul (mayerWeightConstant example_weight)
           (currentWeightMultiple example_weight (Num (Fin 20000)) (Fin 25000))
   \<and> athFactor example_weight (Fin 25000) = Fin (25 / 100)
   \<and> updatedQuoteOrderQty (Num (Fin 100)) example_weight (Num (Fin 20000)) (Fin 25000)
       = Fixed2 (toFixed2 (jmul (jmul (Fin 100)
                                   (mayerFactor example_weight (Num (Fin 20000)) (Fin 25000)))
                                (athFactor example_weight (Fin 25000))))
   \<and> updatedQuoteOrderQty (Num (Fin 100)) example_weight (Num (Fin 20000)) (Fin 25000)
       = Fixed2 (Fin (2396 / 100))
   \<and> fst (calculateWeight (example_collab (FetchJson None (Num (Fin 20000))) 25000 r fr)
            example_trade h)
       = Inr (Fixed2 (Fin (2396 / 100)))"
proof -
  have calc: "fst (calculateWeight (example_collab (FetchJson None (Num (Fin 20000))) 25000 r fr)
            example_trade h)
       = Inr (updatedQuoteOrderQty (Num (Fin 100)) example_weight (Num (Fin 20000)) (Fin 25000))"
    by (simp add: calculateWeight_def getSMA_def getSMA_loop_1 example_collab_def
        example_trade_def Let_def)
  have parts: "mayerMultiple (Num (Fin 20000)) (Fin 25000) = Fin (125 / 100)"
    "mayerWeightConstant example_weight = Fin 2"
    "currentWeightMultiple example_weight (Num (Fin 20000)) (Fin 25000)
       = jsub (Fin 1) (jdiv (Fin (125 / 100)) (round64 (24 / 10)))"
    "mayerFactor example_weight (Num (Fin 20000)) (Fin 25000)
       = jmul (mayerWeightConstant example_weight)
           (currentWeightMultiple example_weight (Num (Fin 20000)) (Fin 25000))"
    "athFactor example_weight (Fin 25000) = Fin (25 / 100)"
    by (simp_all add: weight_calc_defs example_weight_def)
  have prod: "updatedQuoteOrderQty (Num (Fin 100)) example_weight (Num (Fin 20000)) (Fin 25000)
       = Fixed2 (toFixed2 (jmul (jmul (Fin 100)
                                   (mayerFactor example_weight (Num (Fin 20000)) (Fin 25000)))
                                (athFactor example_weight (Fin 25000))))"
    by (simp add: updatedQuoteOrderQty_def)
  show ?thesis
    using parts prod by (simp add: calc example_amount)
qed

text \<open>
  C9. Whatever the weight parameters, the moving average and the current price are,
  the \<open>mayerFactor\<close> that enters the product of the adjusted spend, that is the value
  after the clamp at zero, is never negative: it is a finite number that is at least
  zero, or \<open>Infinity\<close>.
\<close>

theorem mayerFactor_never_negative:
  "\<not> jgt (Fin 0) (mayerFactor w sma currentPrice)
   \<and> (mayerFactor w sma currentPrice = PInf
      \<or> (\<exists>r. mayerFactor w sma currentPrice = Fin r \<and> 0 \<le> r))"
  using mayerFactor_cases[of w sma currentPrice] by auto

theorem mayerFactor_never_negative_witness:
  "mayerFactor example_weight (Num (Fin 20000)) (Fin 60000) = Fin 0
   \<and> \<not> jgt (Fin 0) (mayerFactor example_weight (Num (Fin 20000)) (Fin 60000))"
  using mayerFactor_never_negative[of example_weight "Num (Fin 20000)" "Fin 60000"]
  by (simp add: weight_calc_defs example_weight_def)

section \<open>Properties of the indicator adapter\<close>

text \<open>
  C10. Every fetch that \<open>getSMA\<close> issues queries the symbol made of the asset, a
  slash, and \<open>USDT\<close> when the caller's currency is \<open>USD\<close>, \<open>USD\<close> for any other
  currency, at least one fetch is issued, and the currency queried is never the
  caller's own. Hence every indicator fetch issued while an order is placed, where the
  weight is only calculated for \<open>USD\<close>, queries the pair of the asset and \<open>USDT\<close>.
\<close>

theorem getSMA_symbol:
  "(\<forall>e\<in>set (drop (length h) (snd (getSMA c a cur i p h))).
      \<forall>s i' p'. e = Fetch s i' p' \<longrightarrow>
        s = js_str a @ ''/'' @ (if cur = Some ''USD'' then ''USDT'' else ''USD''))
   \<and> Fetch (js_str a @ ''/'' @ (if cur = Some ''USD'' then ''USDT'' else ''USD'')) i p
        \<in> set (drop (length h) (snd (getSMA c a cur i p h)))
   \<and> (if cur = Some ''USD'' then ''USDT'' else ''USD'') \<noteq> js_str cur
   \<and> (\<forall>e\<in>set (drop (length h) (snd (placeOrder c t h))).
        \<forall>s i' p'. e = Fetch s i' p' \<longrightarrow> s = js_str (asset t) @ ''/USDT'')"
proof -
  obtain evs where e: "snd (getSMA c a cur i p h)
            = h @ Fetch (js_str a @ ''/'' @ (if cur = Some ''USD'' then ''USDT'' else ''USD'')) i p # evs"
     "\<forall>e\<in>set evs. lookup_event (js_str a @ ''/'' @ (if cur = Some ''USD'' then ''USDT'' else ''USD'')) e"
    using getSMA_events[of c a cur i p h] by blast
  have 1: "\<forall>e\<in>set (drop (length h) (snd (getSMA c a cur i p h))).
      \<forall>s i' p'. e = Fetch s i' p' \<longrightarrow>
        s = js_str a @ ''/'' @ (if cur = Some ''USD'' then ''USDT'' else ''USD'')"
    using e by auto
  have 2: "Fetch (js_str a @ ''/'' @ (if cur = Some ''USD'' then ''USDT'' else ''USD'')) i p
        \<in> set (drop (length h) (snd (getSMA c a cur i p h)))"
    using e by simp
  have 3: "(if cur = Some ''USD'' then ''USDT'' else ''USD'') \<noteq> js_str cur"
    by (cases cur) auto
  obtain evs' tl where p: "snd (placeOrder c t h) = h @ evs' @ tl"
      "\<forall>e\<in>set evs'. lookup_event (js_str (asset t) @ ''/USDT'') e"
      "\<forall>e\<in>set tl. \<forall>sy. \<not> lookup_event sy e"
    using placeOrder_events by blast
  have 4: "\<forall>e\<in>set (drop (length h) (snd (placeOrder c t h))).
        \<forall>s i' p'. e = Fetch s i' p' \<longrightarrow> s = js_str (asset t) @ ''/USDT''"
  proof (intro ballI allI impI)
    fix e s i' p' assume a: "e \<in> set (drop (length h) (snd (placeOrder c t h)))" "e = Fetch s i' p'"
    then have "e \<in> set evs' \<or> e \<in> set tl" using p(1) by auto
    then show "s = js_str (asset t) @ ''/USDT''"
    proof
      assume "e \<in> set evs'" then show ?thesis using p(2) a(2) by auto
    next
      assume "e \<in> set tl"
      then have "\<not> lookup_event s e" using p(3) by blast
      then show ?thesis using a(2) by simp
    qed
  qed
  show ?thesis using 1 2 3 4 by blast
qed

theorem getSMA_symbol_witness:
  "Fetch ''BTC/USDT'' ''1d'' 200
     \<in> set (snd (getSMA (example_collab (FetchJson None (Num (Fin 20000))) 25000 rejected 100)
                   (Some ''BTC'') (Some ''USD'') ''1d'' 200 []))
   \<and> Fetch ''BTC/USDT'' ''1d'' 200
     \<in> set (snd (placeOrder (example_collab (FetchJson None (Num (Fin 20000))) 25000 rejected 100)
                   example_trade []))
   \<and> ''USDT'' \<noteq> ''USD''"
proof -
  have "placeOrder (example_collab (FetchJson None (Num (Fin 20000))) 25000 rejected 100)
          example_trade []
        = (Inr (), [Fetch ''BTC/USDT'' ''1d'' 200, GetBookTicker ''BTCUSD'',
                 MarketBuy ''BTCUSD'' Undefined (Fixed2 (Fin (2396 / 100))),
                 SendGrid (FailedMsg ''BTCUSD'' ''Account has insufficient balance''),
                 Telegram (FailedMsg ''BTCUSD'' ''Account has insufficient balance'')])"
    by (simp add: placeOrder_def example_resolve Let_def errorText_def)
       (simp add: example_collab_def rejected_def example_trade_def)
  then show ?thesis
    using getSMA_symbol[where h = "[]" and a = "Some ''BTC''" and cur = "Some ''USD''"
            and i = "''1d''" and p = 200 and t = example_trade
            and c = "example_collab (FetchJson None (Num (Fin 20000))) 25000 rejected 100"]
    by (simp add: example_trade_def)
qed

section \<open>Properties of placing an order\<close>

text \<open>
  C5. When the spend amount resolved for a firing equals zero (\<open>0.00\<close> from the
  weight calculation), the firing returns after sending the notification that the
  weighting algorithm skipped the purchase, and it makes no call to \<open>marketBuy\<close>.
\<close>

theorem zero_spend_skips_order:
  assumes "resolveQuoteOrderQty c t h = (Inr v, h1)" and "loose_eq_zero v"
  shows "placeOrder c t h
           = (Inr (), h1 @ [Telegram (SkippedMsg (js_str (asset t) @ js_str (currency t)))])
       \<and> filter is_order (drop (length h) (snd (placeOrder c t h))) = []"
proof -
  have p: "placeOrder c t h
           = (Inr (), h1 @ [Telegram (SkippedMsg (js_str (asset t) @ js_str (currency t)))])"
    using assms by (simp add: placeOrder_def)
  obtain evs where "h1 = h @ evs" "\<forall>e\<in>set evs. \<not> is_order e"
    using resolve_events[of c t h] assms(1) by auto
  then have "filter is_order (drop (length h) (snd (placeOrder c t h))) = []"
    by (simp add: p)
  with p show ?thesis by simp
qed

theorem zero_spend_skips_order_witness:
  "resolveQuoteOrderQty (example_collab (FetchJson None (Num (Fin 20000))) 60000 rejected 100)
       example_trade []
     = (Inr (Fixed2 (Fin 0)), [Fetch ''BTC/USDT'' ''1d'' 200, GetBookTicker ''BTCUSD''])
   \<and> loose_eq_zero (Fixed2 (Fin 0))
   \<and> placeOrder (example_collab (FetchJson None (Num (Fin 20000))) 60000 rejected 100)
        example_trade []
     = (Inr (), [Fetch ''BTC/USDT'' ''1d'' 200, GetBookTicker ''BTCUSD'',
                 Telegram (SkippedMsg ''BTCUSD'')])"
proof -
  have z: "loose_eq_zero (Fixed2 (Fin 0))" by simp
  show ?thesis
    using zero_spend_skips_order[OF example_resolve_high_price z] example_resolve_high_price
    by (simp add: example_trade_def)
qed

text \<open>
  C7. When the answer to \<open>marketBuy\<close> carries no order identifier, the firing sends
  exactly one message on each channel (SendGrid and Telegram), the failure notification
  with the message of the exchange when there is one and a generic text otherwise, and
  it makes no call to \<open>saveOrder\<close>.
\<close>

theorem failed_order_notifies_once:
  fixes c :: collab and t :: trade and h h1 :: "event list" and v :: jsval
  defines "pair \<equiv> js_str (asset t) @ js_str (currency t)"
  defines "r \<equiv> marketBuy c (h1 @ [MarketBuy pair (quantity t) v])"
  defines "txt \<equiv> (if truthy_str (msg r) then js_str (msg r)
                   else ''Unexpected error placing buy order for '' @ pair)"
  assumes "resolveQuoteOrderQty c t h = (Inr v, h1)" and "\<not> loose_eq_zero v"
    and "\<not> truthy_id (orderId r)"
  shows "placeOrder c t h
           = (Inr (), h1 @ [MarketBuy pair (quantity t) v, SendGrid (FailedMsg pair txt),
                            Telegram (FailedMsg pair txt)])
       \<and> filter is_sendgrid (drop (length h) (snd (placeOrder c t h)))
           = [SendGrid (FailedMsg pair txt)]
       \<and> filter is_telegram (drop (length h) (snd (placeOrder c t h)))
           = [Telegram (FailedMsg pair txt)]
       \<and> filter is_save (drop (length h) (snd (placeOrder c t h))) = []"
proof -
  have p: "placeOrder c t h
           = (Inr (), h1 @ [MarketBuy pair (quantity t) v, SendGrid (FailedMsg pair txt),
                            Telegram (FailedMsg pair txt)])"
    using assms(4-6) by (simp add: placeOrder_def Let_def pair_def r_def txt_def errorText_def)
  obtain evs where "h1 = h @ evs"
    "\<forall>e\<in>set evs. \<not> is_order e \<and> \<not> is_save e \<and> \<not> is_sendgrid e \<and> \<not> is_telegram e"
    using resolve_events[of c t h] assms(4) by auto
  then show ?thesis
    by (simp add: p)
qed

theorem failed_order_notifies_once_witness:
  "placeOrder (example_collab (FetchJson None (Num (Fin 20000))) 25000 rejected 100)
        example_trade []
     = (Inr (), [Fetch ''BTC/USDT'' ''1d'' 200, GetBookTicker ''BTCUSD'',
                 MarketBuy ''BTCUSD'' Undefined (Fixed2 (Fin (2396 / 100))),
                 SendGrid (FailedMsg ''BTCUSD'' ''Account has insufficient balance''),
                 Telegram (FailedMsg ''BTCUSD'' ''Account has insufficient balance'')])"
proof -
  have nz: "\<not> loose_eq_zero (Fixed2 (Fin (2396 / 100)))" by simp
  have no_id: "\<not> truthy_id (orderId (marketBuy
      (example_collab (FetchJson None (Num (Fin 20000))) 25000 rejected 100)
      (([] @ [Fetch ''BTC/USDT'' ''1d'' 200, GetBookTicker ''BTCUSD'']) @
        [MarketBuy (js_str (asset example_trade) @ js_str (currency example_trade))
           (quantity example_trade) (Fixed2 (Fin (2396 / 100)))])))"
    by (simp add: example_collab_def rejected_def)
  show ?thesis
    using failed_order_notifies_once[OF example_resolve nz no_id]
    by (simp add: example_trade_def example_collab_def rejected_def)
qed

text \<open>
  C6. After an order that went through (an order identifier, at least one fill, and a
  balance for the currency of the trade in the account information fetched after the
  order), the low-balance warning is sent if and only if \<open>totalCost * 5\<close>, the product
  as the code computes it, is strictly greater than the free balance. The instance
  below has \<open>totalCost = 50\<close> with a free balance of \<open>100\<close>, which warns, and of
  \<open>500\<close>, which does not; \<open>20\<close> with \<open>100\<close>, where the two sides are equal and no
  warning is sent; \<open>0.07\<close> with \<open>0.35\<close>, which warns, and \<open>139.16\<close> with \<open>695.8\<close>,
  which does not.
\<close>

theorem low_balance_warning_iff:
  fixes c :: collab and t :: trade and h h1 :: "event list" and v :: jsval
  defines "pair \<equiv> js_str (asset t) @ js_str (currency t)"
  defines "r \<equiv> marketBuy c (h1 @ [MarketBuy pair (quantity t) v])"
  defines "h3 \<equiv> h1 @ [MarketBuy pair (quantity t) v, SaveOrder r, SendGrid (ExecutedMsg pair),
                        Telegram (ExecutedMsg pair), GetAccountInfo]"
  defines "d \<equiv> getOrderDetails c (asset t) (currency t) r"
  assumes "resolveQuoteOrderQty c t h = (Inr v, h1)" and "\<not> loose_eq_zero v"
    and "truthy_id (orderId r)" and "fills r \<noteq> []"
    and "find (\<lambda>item. Some (balance_asset item) = currency t) (balances (getAccountInfo c h3))
           = Some b"
  shows "(Telegram (BalanceLowMsg (js_str (currency t)) (free b))
            \<in> set (drop (length h3) (snd (placeOrder c t h)))
          \<longleftrightarrow> jgt (jmul (to_num (totalCost d)) (Fin 5)) (to_num (free b)))
       \<and> placeOrder c t h
           = (Inr (), h3 @ (if jgt (jmul (to_num (totalCost d)) (Fin 5)) (to_num (free b))
                            then [Telegram (BalanceLowMsg (js_str (currency t)) (free b))]
                            else []))"
proof -
  obtain f fs where f: "fills r = f # fs"
    using assms(8) by (cases "fills r") auto
  have p: "placeOrder c t h
           = (Inr (), h3 @ (if jgt (jmul (to_num (totalCost d)) (Fin 5)) (to_num (free b))
                            then [Telegram (BalanceLowMsg (js_str (currency t)) (free b))]
                            else []))"
    using assms(5-7,9) f
    by (simp add: placeOrder_def Let_def pair_def r_def h3_def d_def NUM_TRADE_THRESHOLD_def)
  show ?thesis
    by (simp add: p)
qed

theorem low_balance_warning_iff_witness:
  "Telegram (BalanceLowMsg ''USD'' (Num (Fin 100)))
     \<in> set (snd (placeOrder (balance_collab (Num (Fin 50)) (Num (Fin 100))) example_trade []))
   \<and> Telegram (BalanceLowMsg ''USD'' (Num (Fin 500)))
     \<notin> set (snd (placeOrder (balance_collab (Num (Fin 50)) (Num (Fin 500))) example_trade []))
   \<and> Telegram (BalanceLowMsg ''USD'' (Num (Fin 100)))
     \<notin> set (snd (placeOrder (balance_collab (Num (Fin 20)) (Num (Fin 100))) example_trade []))
   \<and> Telegram (BalanceLowMsg ''USD'' (Fixed2 (Fin (35 / 100))))
     \<in> set (snd (placeOrder (balance_collab (Num (Fin (7 / 100))) (Fixed2 (Fin (35 / 100))))
                   example_trade []))
   \<and> Telegram (BalanceLowMsg ''USD'' (Fixed2 (Fin (6958 / 10))))
     \<notin> set (snd (placeOrder (balance_collab (Num (Fin (13916 / 100))) (Fixed2 (Fin (6958 / 10))))
                   example_trade []))"
proof -
  have res: "resolveQuoteOrderQty (balance_collab tc fr) example_trade []
       = (Inr (Fixed2 (Fin (2396 / 100))),
          [] @ [Fetch ''BTC/USDT'' ''1d'' 200, GetBookTicker ''BTCUSD''])" for tc fr
    by (simp add: resolveQuoteOrderQty_def calculateWeight_def getSMA_def getSMA_loop_1
        balance_collab_def example_collab_def example_trade_def Let_def example_amount)
  have nz: "\<not> loose_eq_zero (Fixed2 (Fin (2396 / 100)))" by simp
  have a: "truthy_id (orderId (marketBuy (balance_collab tc fr) l))" for tc fr l
    by (simp add: balance_collab_def example_collab_def filled_def)
  have b: "fills (marketBuy (balance_collab tc fr) l) \<noteq> []" for tc fr l
    by (simp add: balance_collab_def example_collab_def filled_def)
  have f: "find (\<lambda>item. Some (balance_asset item) = currency example_trade)
             (balances (getAccountInfo (balance_collab tc fr) l))
           = Some \<lparr>balance_asset = ''USD'', free = fr\<rparr>" for tc fr l
    by (simp add: balance_collab_def example_collab_def example_trade_def)
  have d: "totalCost (getOrderDetails (balance_collab tc fr) x y z) = tc" for tc fr x y z
    by (simp add: balance_collab_def example_collab_def)
  show ?thesis
    using low_balance_warning_iff[OF res[of "Num (Fin 50)" "Num (Fin 100)"] nz a b f]
          low_balance_warning_iff[OF res[of "Num (Fin 50)" "Num (Fin 500)"] nz a b f]
          low_balance_warning_iff[OF res[of "Num (Fin 20)" "Num (Fin 100)"] nz a b f]
          low_balance_warning_iff[OF res[of "Num (Fin (7 / 100))" "Fixed2 (Fin (35 / 100))"] nz a b f]
          low_balance_warning_iff[OF res[of "Num (Fin (13916 / 100))" "Fixed2 (Fin (6958 / 10))"] nz a b f]
    by (simp add: d example_trade_def)
qed

text \<open>
  C8. A firing runs the weight calculation (it fetches the indicator and the book
  ticker) if and only if the trade has a weight and its currency is \<open>USD\<close>. For every
  other trade the spend amount is the configured \<open>quoteOrderQty\<close>, unchanged: it is
  what the first action of the firing is decided on and what is passed to \<open>marketBuy\<close>.
\<close>

theorem weighting_only_for_usd:
  "(GetBookTicker (js_str (asset t) @ js_str (currency t))
       \<in> set (drop (length h) (snd (placeOrder c t h)))
     \<longleftrightarrow> weight t \<noteq> None \<and> currency t = Some ''USD'')
   \<and> ((\<exists>e\<in>set (drop (length h) (snd (placeOrder c t h))). \<exists>sy. lookup_event sy e)
     \<longleftrightarrow> weight t \<noteq> None \<and> currency t = Some ''USD'')
   \<and> (\<not> (weight t \<noteq> None \<and> currency t = Some ''USD'') \<longrightarrow>
        resolveQuoteOrderQty c t h = (Inr (quoteOrderQty t), h)
        \<and> take 1 (drop (length h) (snd (placeOrder c t h)))
            = [if loose_eq_zero (quoteOrderQty t)
               then Telegram (SkippedMsg (js_str (asset t) @ js_str (currency t)))
               else MarketBuy (js_str (asset t) @ js_str (currency t)) (quantity t)
                      (quoteOrderQty t)])"
proof (cases "weight t \<noteq> None \<and> currency t = Some ''USD''")
  case True
  obtain tl where tl: "snd (placeOrder c t h) = snd (resolveQuoteOrderQty c t h) @ tl"
    using placeOrder_tail[of c t h] by blast
  obtain evs where "snd (calculateWeight c t h)
       = h @ Fetch (js_str (asset t) @ ''/USDT'') ''1d'' 200 # evs @ [GetBookTicker (js_str (asset t) @ ''USD'')]"
    using calculateWeight_events[of t c h] True by blast
  then have "snd (placeOrder c t h)
       = h @ Fetch (js_str (asset t) @ ''/USDT'') ''1d'' 200 # evs @ [GetBookTicker (js_str (asset t) @ ''USD'')] @ tl"
    using tl True by (simp add: resolveQuoteOrderQty_def)
  then have d: "drop (length h) (snd (placeOrder c t h))
       = Fetch (js_str (asset t) @ ''/USDT'') ''1d'' 200 # evs @ [GetBookTicker (js_str (asset t) @ ''USD'')] @ tl"
    by simp
  have 1: "GetBookTicker (js_str (asset t) @ js_str (currency t))
       \<in> set (drop (length h) (snd (placeOrder c t h)))"
    using True by (simp add: d)
  have 2: "\<exists>e\<in>set (drop (length h) (snd (placeOrder c t h))). \<exists>sy. lookup_event sy e"
    unfolding d by (rule bexI[of _ "GetBookTicker (js_str (asset t) @ ''USD'')"]) simp_all
  show ?thesis using True 1 2 by blast
next
  case False
  obtain tl where tl: "snd (placeOrder c t h)
           = h @ (if loose_eq_zero (quoteOrderQty t)
                  then Telegram (SkippedMsg (js_str (asset t) @ js_str (currency t)))
                  else MarketBuy (js_str (asset t) @ js_str (currency t)) (quantity t)
                         (quoteOrderQty t)) # tl"
         "\<forall>e\<in>set tl. \<forall>sy. \<not> lookup_event sy e"
    using placeOrder_unweighted[OF False, of c h] by blast
  have d: "drop (length h) (snd (placeOrder c t h))
           = (if loose_eq_zero (quoteOrderQty t)
                  then Telegram (SkippedMsg (js_str (asset t) @ js_str (currency t)))
                  else MarketBuy (js_str (asset t) @ js_str (currency t)) (quantity t)
                         (quoteOrderQty t)) # tl"
    by (simp add: tl(1))
  have 1: "GetBookTicker (js_str (asset t) @ js_str (currency t))
       \<notin> set (drop (length h) (snd (placeOrder c t h)))"
    using tl(2) by (auto simp add: d)
  have 2: "\<not> (\<exists>e\<in>set (drop (length h) (snd (placeOrder c t h))). \<exists>sy. lookup_event sy e)"
    using tl(2) by (auto simp add: d)
  have 3: "resolveQuoteOrderQty c t h = (Inr (quoteOrderQty t), h)"
    using False by (auto simp add: resolveQuoteOrderQty_def)
  have 4: "take 1 (drop (length h) (snd (placeOrder c t h)))
            = [if loose_eq_zero (quoteOrderQty t)
               then Telegram (SkippedMsg (js_str (asset t) @ js_str (currency t)))
               else MarketBuy (js_str (asset t) @ js_str (currency t)) (quantity t)
                      (quoteOrderQty t)]"
    by (simp add: d)
  show ?thesis using False 1 2 3 4 by blast
qed

theorem weighting_only_for_usd_witness:
  "GetBookTicker ''BTCUSD''
     \<in> set (snd (placeOrder (example_collab (FetchJson None (Num (Fin 20000))) 25000 rejected 100)
                   example_trade []))
   \<and> weight example_trade \<noteq> None \<and> currency example_trade = Some ''USD''
   \<and> \<not> (weight static_trade \<noteq> None \<and> currency static_trade = Some ''USD'')
   \<and> take 1 (snd (placeOrder (example_collab (FetchJson None (Num (Fin 20000))) 25000 rejected 100)
                    static_trade []))
       = [MarketBuy ''ETHEUR'' Undefined (Num (Fin 15))]"
  using weighting_only_for_usd[of example_trade "[]"
          "example_collab (FetchJson None (Num (Fin 20000))) 25000 rejected 100"]
        weighting_only_for_usd[of static_trade "[]"
          "example_collab (FetchJson None (Num (Fin 20000))) 25000 rejected 100"]
  by (simp add: example_trade_def static_trade_def)

text \<open>
  C2 (as the code has it). When both attempts of the indicator fetch of a firing fail,
  \<open>getSMA\<close> returns \<open>undefined\<close> and the firing of a weighted \<open>USD\<close> trade does not
  throw, but it does not fall back to the configured \<open>quoteOrderQty\<close> either: the
  weight is calculated with a \<open>mayerFactor\<close> of zero, so that, when \<open>quoteOrderQty\<close> is
  a finite number and the ATH factor computed from the bid price of this firing is
  finite, the adjusted spend is \<open>0.00\<close>, the skip notification is sent and no order is
  submitted.
\<close>

theorem exhausted_indicator_skips_purchase:
  fixes c :: collab and t :: trade and h :: "event list" and w :: weightSpec
  defines "pair \<equiv> js_str (asset t) @ js_str (currency t)"
  defines "F \<equiv> Fetch (js_str (asset t) @ ''/USDT'') ''1d'' 200"
  defines "h1 \<equiv> snd (getSMA c (asset t) (currency t) ''1d'' 200 h)"
  assumes "weight t = Some w" and "currency t = Some ''USD''"
    and "fetch_failed (fetch c (h @ [F]))"
    and "fetch_failed (fetch c (h @ F #
           (if fetch c (h @ [F]) = FetchThrows then [] else [Wait 15000]) @ [F]))"
    and "finite_num (to_num (quoteOrderQty t))"
    and "finite_num (athFactor w (to_num (bidPrice (getBookTicker c
           (h1 @ [GetBookTicker pair])))))"
  shows "fst (getSMA c (asset t) (currency t) ''1d'' 200 h) = Undefined
       \<and> placeOrder c t h = (Inr (), h1 @ [GetBookTicker pair, Telegram (SkippedMsg pair)])
       \<and> filter is_order (drop (length h) (snd (placeOrder c t h))) = []"
proof -
  have u: "fst (getSMA c (asset t) (currency t) ''1d'' 200 h) = Undefined"
    using getSMA_loop_exhausted[of c h "js_str (asset t) @ ''/USDT''" "''1d''" 200]
      assms(5-7)
    by (simp add: getSMA_def Let_def F_def)
  then have g: "getSMA c (asset t) (currency t) ''1d'' 200 h = (Undefined, h1)"
    by (simp add: h1_def prod_eq_iff)
  obtain q where q: "to_num (quoteOrderQty t) = Fin q"
    using assms(8) by (cases "to_num (quoteOrderQty t)") simp_all
  obtain a where a: "athFactor w (to_num (bidPrice (getBookTicker c
           (h1 @ [GetBookTicker pair])))) = Fin a"
    using assms(9)
    by (cases "athFactor w (to_num (bidPrice (getBookTicker c (h1 @ [GetBookTicker pair]))))")
       simp_all
  have r: "resolveQuoteOrderQty c t h = (Inr (Fixed2 (Fin 0)), h1 @ [GetBookTicker pair])"
    using assms(4,5) g q a
    by (simp add: resolveQuoteOrderQty_def calculateWeight_def Let_def pair_def
        updatedQuoteOrderQty_def mayerFactor_undefined)
  have p: "placeOrder c t h = (Inr (), h1 @ [GetBookTicker pair, Telegram (SkippedMsg pair)])"
    using r by (simp add: placeOrder_def pair_def)
  obtain evs where e: "h1 @ [GetBookTicker pair] = h @ evs" "\<forall>e\<in>set evs. \<not> is_order e"
    using resolve_events[of c t h] r by auto
  have "h1 @ [GetBookTicker pair, Telegram (SkippedMsg pair)]
          = (h1 @ [GetBookTicker pair]) @ [Telegram (SkippedMsg pair)]"
    by simp
  also have "\<dots> = h @ evs @ [Telegram (SkippedMsg pair)]"
    by (simp only: e(1) append_assoc)
  finally have eq: "h1 @ [GetBookTicker pair, Telegram (SkippedMsg pair)]
          = h @ evs @ [Telegram (SkippedMsg pair)]" .
  have "snd (placeOrder c t h) = h @ evs @ [Telegram (SkippedMsg pair)]"
    unfolding p snd_conv by (rule eq)
  then have "drop (length h) (snd (placeOrder c t h)) = evs @ [Telegram (SkippedMsg pair)]"
    by simp
  then have "filter is_order (drop (length h) (snd (placeOrder c t h))) = []"
    using e(2) by simp
  with u p show ?thesis by simp
qed

theorem exhausted_indicator_skips_purchase_witness:
  "placeOrder outage_collab example_trade []
     = (Inr (), [Fetch ''BTC/USDT'' ''1d'' 200, Fetch ''BTC/USDT'' ''1d'' 200,
                 GetBookTicker ''BTCUSD'', Telegram (SkippedMsg ''BTCUSD'')])
   \<and> \<not> fetch_failed (fetch outage_collab
          [Fetch ''BTC/USDT'' ''1d'' 200, Fetch ''BTC/USDT'' ''1d'' 200,
           GetBookTicker ''BTCUSD'', Telegram (SkippedMsg ''BTCUSD''),
           Fetch ''BTC/USDT'' ''1d'' 200])"
proof -
  have w: "weight example_trade = Some example_weight"
    and cur: "currency example_trade = Some ''USD''"
    and q: "finite_num (to_num (quoteOrderQty example_trade))"
    by (simp_all add: example_trade_def)
  have f1: "fetch_failed (fetch outage_collab
              ([] @ [Fetch (js_str (asset example_trade) @ ''/USDT'') ''1d'' 200]))"
    by (simp add: outage_collab_def)
  have f2: "fetch_failed (fetch outage_collab
              ([] @ Fetch (js_str (asset example_trade) @ ''/USDT'') ''1d'' 200 #
                 (if fetch outage_collab
                       ([] @ [Fetch (js_str (asset example_trade) @ ''/USDT'') ''1d'' 200])
                     = FetchThrows then [] else [Wait 15000])
                 @ [Fetch (js_str (asset example_trade) @ ''/USDT'') ''1d'' 200]))"
    by (simp add: outage_collab_def)
  have a: "finite_num (athFactor example_weight
             (to_num (bidPrice (getBookTicker outage_collab l))))" for l
    by (simp add: outage_collab_def example_collab_def example_weight_def athFactor_def Let_def)
  have g: "snd (getSMA outage_collab (asset example_trade) (currency example_trade)
                  ''1d'' 200 [])
           = [Fetch ''BTC/USDT'' ''1d'' 200, Fetch ''BTC/USDT'' ''1d'' 200]"
    by (simp add: getSMA_def getSMA_loop_1 getSMA_loop_2 outage_collab_def example_trade_def
        Let_def)
  have later: "\<not> fetch_failed (fetch outage_collab
          [Fetch ''BTC/USDT'' ''1d'' 200, Fetch ''BTC/USDT'' ''1d'' 200,
           GetBookTicker ''BTCUSD'', Telegram (SkippedMsg ''BTCUSD''),
           Fetch ''BTC/USDT'' ''1d'' 200])"
    by (simp add: outage_collab_def)
  show ?thesis
    using exhausted_indicator_skips_purchase[OF w cur f1 f2 q a] later
    by (simp add: g) (simp add: example_trade_def)
qed

text \<open>
  C2 as stated fails: with an indicator service that answers every fetch with an error,
  the weighted example trade of \<open>100 USD\<close> is skipped, and no order with the static
  amount is submitted.
\<close>

theorem static_fallback_counterexample:
  "fst (getSMA (example_collab (FetchJson (Some ''rate limit'') Undefined) 25000 filled 100)
          (Some ''BTC'') (Some ''USD'') ''1d'' 200 []) = Undefined
   \<and> placeOrder (example_collab (FetchJson (Some ''rate limit'') Undefined) 25000 filled 100)
        example_trade []
     = (Inr (), [Fetch ''BTC/USDT'' ''1d'' 200, Wait 15000, Fetch ''BTC/USDT'' ''1d'' 200,
                 Wait 30000, GetBookTicker ''BTCUSD'', Telegram (SkippedMsg ''BTCUSD'')])
   \<and> MarketBuy ''BTCUSD'' (quantity example_trade) (quoteOrderQty example_trade)
     \<notin> set (snd (placeOrder
                   (example_collab (FetchJson (Some ''rate limit'') Undefined) 25000 filled 100)
                   example_trade []))"
proof -
  have g: "getSMA (example_collab (FetchJson (Some ''rate limit'') Undefined) 25000 filled 100)
          (Some ''BTC'') (Some ''USD'') ''1d'' 200 []
        = (Undefined, [Fetch ''BTC/USDT'' ''1d'' 200, Wait 15000, Fetch ''BTC/USDT'' ''1d'' 200,
                 Wait 30000])"
    by (simp add: getSMA_def getSMA_loop_1 getSMA_loop_2 example_collab_def Let_def)
  have p: "placeOrder (example_collab (FetchJson (Some ''rate limit'') Undefined) 25000 filled 100)
        example_trade []
     = (Inr (), [Fetch ''BTC/USDT'' ''1d'' 200, Wait 15000, Fetch ''BTC/USDT'' ''1d'' 200,
                 Wait 30000, GetBookTicker ''BTCUSD'', Telegram (SkippedMsg ''BTCUSD'')])"
    by (simp add: placeOrder_def resolveQuoteOrderQty_def calculateWeight_def example_trade_def g
        Let_def updatedQuoteOrderQty_def mayerFactor_undefined)
       (simp add: example_collab_def example_weight_def athFactor_def Let_def)
  show ?thesis
    by (simp add: g p)
qed

section \<open>Properties of starting the bot\<close>

text \<open>
  C3 (as the code has it). With credentials and connectivity in order, when the loop
  over the trades reaches a trade that has an asset, a currency and both \<open>quantity\<close>
  and \<open>quoteOrderQty\<close>, and the trades before it raised no error (neither in placing
  one nor in describing its schedule), \<open>runBot\<close> throws the error for conflicting
  sizes. The effects are exactly those of the trades before
  it, which have been placed or registered by then: the conflicting trade and the trades
  after it are neither placed nor registered, and no start notification is sent.
\<close>

theorem conflict_aborts_when_reached:
  assumes "truthy_str (BINANCE_KEY cfg)" and "truthy_str (BINANCE_SECRET cfg)"
    and "checkForBinanceConnectivity c h = (Inr True, h1)"
    and "runBot_loop c pre h1 = (Inr (), h2)"
    and "truthy (quantity t)" and "truthy (quoteOrderQty t)"
    and "truthy_str (asset t)" and "truthy_str (currency t)"
  shows "runBot cfg c (pre @ t # post) h = (Inl BothSizesError, h2)"
proof -
  have "runBot_loop c (t # post) h2 = (Inl BothSizesError, h2)"
    using assms(5-8) by simp
  then have "runBot_loop c (pre @ t # post) h1 = (Inl BothSizesError, h2)"
    using assms(4) by (simp add: runBot_loop_append)
  then show ?thesis
    using assms(1-3) by (simp add: runBot_def checkForParameters_def)
qed

theorem conflict_aborts_when_reached_witness:
  "runBot example_config (example_collab FetchThrows 25000 rejected 100)
     ([static_trade, scheduled_trade] @ conflicting_trade # [example_trade]) []
   = (Inl BothSizesError,
      [GetAccountInfo, MarketBuy ''ETHEUR'' Undefined (Num (Fin 15)),
       SendGrid (FailedMsg ''ETHEUR'' ''Account has insufficient balance''),
       Telegram (FailedMsg ''ETHEUR'' ''Account has insufficient balance''),
       ScheduleJob ''0 12 * * *'' scheduled_trade])"
proof -
  have k: "truthy_str (BINANCE_KEY example_config)" "truthy_str (BINANCE_SECRET example_config)"
    by (simp_all add: example_config_def)
  have t: "truthy (quantity conflicting_trade)" "truthy (quoteOrderQty conflicting_trade)"
    "truthy_str (asset conflicting_trade)" "truthy_str (currency conflicting_trade)"
    by (simp_all add: conflicting_trade_def)
  show ?thesis
    using conflict_aborts_when_reached[where h = "[]" and post = "[example_trade]",
            OF k example_connectivity example_loop_prefix t]
    by simp
qed

text \<open>
  C3 as stated fails: with an immediate trade and a scheduled trade in front of a
  conflicting one, the first is submitted to the exchange and the second is registered
  with the scheduler before the conflict aborts the start.
\<close>

theorem validation_before_scheduling_counterexample:
  "runBot example_config (example_collab FetchThrows 25000 rejected 100)
     [static_trade, scheduled_trade, conflicting_trade] []
   = (Inl BothSizesError,
      [GetAccountInfo, MarketBuy ''ETHEUR'' Undefined (Num (Fin 15)),
       SendGrid (FailedMsg ''ETHEUR'' ''Account has insufficient balance''),
       Telegram (FailedMsg ''ETHEUR'' ''Account has insufficient balance''),
       ScheduleJob ''0 12 * * *'' scheduled_trade])
   \<and> truthy (quantity conflicting_trade) \<and> truthy (quoteOrderQty conflicting_trade)"
proof -
  have t: "truthy (quantity conflicting_trade)" "truthy (quoteOrderQty conflicting_trade)"
    "truthy_str (asset conflicting_trade)" "truthy_str (currency conflicting_trade)"
    by (simp_all add: conflicting_trade_def)
  have l: "runBot_loop (example_collab FetchThrows 25000 rejected 100)
             ([static_trade, scheduled_trade] @ [conflicting_trade]) [GetAccountInfo]
           = (Inl BothSizesError,
              [GetAccountInfo, MarketBuy ''ETHEUR'' Undefined (Num (Fin 15)),
               SendGrid (FailedMsg ''ETHEUR'' ''Account has insufficient balance''),
               Telegram (FailedMsg ''ETHEUR'' ''Account has insufficient balance''),
               ScheduleJob ''0 12 * * *'' scheduled_trade])"
    unfolding runBot_loop_append example_loop_prefix by (simp add: t)
  show ?thesis
    using l by (simp add: runBot_def checkForParameters_def example_config_def
        example_connectivity t)
qed

text \<open>
  C4 (as the code has it). A weight whose \<open>mayerMultipleAvg\<close> equals its
  \<open>mayerMultipleMax\<close> (a finite number other than zero) is rejected by no validation:
  for an immediate \<open>USD\<close> trade that carries it, the first effect of \<open>runBot\<close> after
  the connectivity check is the indicator fetch of the weight calculation, and the
  calculation raises no error. The division by zero is reached there, and it yields
  \<open>mayerWeightConstant = Infinity\<close>.
\<close>

theorem equal_mayer_multiples_reach_calculation:
  assumes "truthy_str (BINANCE_KEY cfg)" and "truthy_str (BINANCE_SECRET cfg)"
    and "checkForBinanceConnectivity c h = (Inr True, h1)"
    and "weight t = Some w"
    and "mayerMultipleAvg w = Fin a" and "mayerMultipleMax w = Fin a" and "a \<noteq> 0"
    and "currency t = Some ''USD''" and "truthy_str (asset t)"
    and "truthy (quoteOrderQty t)" and "\<not> truthy (quantity t)"
    and "\<not> truthy_str (schedule t)"
  shows "mayerWeightConstant w = PInf
       \<and> take (Suc (length h1)) (snd (runBot cfg c (t # ts) h))
           = h1 @ [Fetch (js_str (asset t) @ ''/USDT'') ''1d'' 200]
       \<and> (\<exists>v. fst (calculateWeight c t h1) = Inr (Fixed2 v))"
proof -
  have 1: "mayerWeightConstant w = PInf"
    using assms(5-7) by (rule mayerWeightConstant_equal)
  obtain rest where rest: "snd (placeOrder c t h1)
           = h1 @ Fetch (js_str (asset t) @ ''/USDT'') ''1d'' 200 # rest"
    using placeOrder_weighted_first[of t c h1] assms(4,8) by auto
  obtain evs where evs: "snd (runBot_loop c ts (snd (placeOrder c t h1)))
                           = snd (placeOrder c t h1) @ evs"
    using runBot_loop_extends by blast
  have "\<exists>rest'. snd (runBot cfg c (t # ts) h)
           = h1 @ Fetch (js_str (asset t) @ ''/USDT'') ''1d'' 200 # rest'"
    using assms(1-3,8-12) rest evs
    by (auto simp add: runBot_def checkForParameters_def split: prod.splits sum.splits)
  then have 2: "take (Suc (length h1)) (snd (runBot cfg c (t # ts) h))
           = h1 @ [Fetch (js_str (asset t) @ ''/USDT'') ''1d'' 200]"
    by auto
  have 3: "\<exists>v. fst (calculateWeight c t h1) = Inr (Fixed2 v)"
    using assms(4)
    by (simp add: calculateWeight_def Let_def updatedQuoteOrderQty_def split: prod.splits)
  show ?thesis using 1 2 3 by blast
qed

theorem equal_mayer_multiples_reach_calculation_witness:
  "mayerWeightConstant flat_weight = PInf
   \<and> take 2 (snd (runBot example_config
                    (example_collab (FetchJson None (Num (Fin 20000))) 25000 rejected 100)
                    [flat_trade] []))
       = [GetAccountInfo, Fetch ''BTC/USDT'' ''1d'' 200]"
proof -
  have k: "truthy_str (BINANCE_KEY example_config)" "truthy_str (BINANCE_SECRET example_config)"
    by (simp_all add: example_config_def)
  have w: "weight flat_trade = Some flat_weight"
    by (simp add: flat_trade_def)
  have a: "mayerMultipleAvg flat_weight = Fin (5404319552844595 / 2251799813685248)"
    "mayerMultipleMax flat_weight = Fin (5404319552844595 / 2251799813685248)"
    "(5404319552844595 / 2251799813685248 :: rat) \<noteq> 0"
    by (simp_all add: flat_weight_def)
  have s: "currency flat_trade = Some ''USD''" "truthy_str (asset flat_trade)"
    "truthy (quoteOrderQty flat_trade)" "\<not> truthy (quantity flat_trade)"
    "\<not> truthy_str (schedule flat_trade)"
    by (simp_all add: flat_trade_def)
  show ?thesis
    using equal_mayer_multiples_reach_calculation[where h = "[]" and ts = "[]",
            OF k example_connectivity w a s]
    by (simp add: flat_trade_def numeral_2_eq_2)
qed

text \<open>
  C4 as stated fails: with \<open>mayerMultipleAvg = mayerMultipleMax = 2.4\<close> the start
  succeeds, the weight is calculated with an infinite \<open>mayerWeightConstant\<close>, and an
  order for the amount \<open>Infinity\<close> is submitted.
\<close>

theorem weight_validation_counterexample:
  "mayerMultipleAvg flat_weight = mayerMultipleMax flat_weight
   \<and> mayerWeightConstant flat_weight = PInf
   \<and> runBot example_config (example_collab (FetchJson None (Num (Fin 20000))) 25000 rejected 100)
       [flat_trade] []
     = (Inr (), [GetAccountInfo, Fetch ''BTC/USDT'' ''1d'' 200, GetBookTicker ''BTCUSD'',
                 MarketBuy ''BTCUSD'' Undefined (Fixed2 PInf),
                 SendGrid (FailedMsg ''BTCUSD'' ''Account has insufficient balance''),
                 Telegram (FailedMsg ''BTCUSD'' ''Account has insufficient balance''),
                 Telegram StartedMsg])"
  by (simp add: flat_runBot) (simp add: flat_weight_def mayerWeightConstant_def)

end
